theory Spec2Isabelle
  imports Complex_Main
begin

section \<open>Strings: what the f-strings of the script compute\<close>

text \<open>
  Python's \<^verbatim>\<open>str(n)\<close> for a non-negative integer: the decimal digits, most
  significant first, no leading zero.
\<close>

definition digit_char :: "nat \<Rightarrow> char" where
  "digit_char d = ''0123456789'' ! d"

fun str_nat :: "nat \<Rightarrow> string" where
  "str_nat n =
     (if n < 10 then [digit_char n] else str_nat (n div 10) @ [digit_char (n mod 10)])"

declare str_nat.simps [simp del]

text \<open>
  The format specification \<^verbatim>\<open>04d\<close>: decimal, padded with zeros to width 4; the
  sign of a negative number takes one of the four places, and a longer number is not
  cut.
\<close>

definition zfill :: "nat \<Rightarrow> string \<Rightarrow> string" where
  "zfill width s = replicate (width - length s) (CHR ''0'') @ s"

definition format_04d :: "int \<Rightarrow> string" where
  "format_04d i =
     (if i < 0 then CHR ''-'' # zfill 3 (str_nat (nat (- i)))
      else zfill 4 (str_nat (nat i)))"

text \<open>\<^verbatim>\<open>sep.join(xs)\<close>, \<^verbatim>\<open>s.split(sep)\<close> for a one-character separator,
  \<^verbatim>\<open>s.endswith(t)\<close> and \<^verbatim>\<open>repr(s)\<close> for a string without quotes or escapes.\<close>

fun join :: "string \<Rightarrow> string list \<Rightarrow> string" where
  "join sep [] = []"
| "join sep [x] = x"
| "join sep (x # y # ys) = x @ sep @ join sep (y # ys)"

fun split_sep :: "char \<Rightarrow> string \<Rightarrow> string list" where
  "split_sep c [] = [[]]"
| "split_sep c (x # xs) =
     (if x = c then [] # split_sep c xs
      else (case split_sep c xs of [] \<Rightarrow> [[x]] | p # ps \<Rightarrow> (x # p) # ps))"

definition endswith :: "string \<Rightarrow> string \<Rightarrow> bool" where
  "endswith s t \<longleftrightarrow> length t \<le> length s \<and> drop (length s - length t) s = t"

definition repr :: "string \<Rightarrow> string" where
  "repr s = [CHR 0x27] @ s @ [CHR 0x27]"



section \<open>pathlib: pure POSIX paths\<close>

text \<open>
  A \<^verbatim>\<open>PurePosixPath\<close> is its root (\<^verbatim>\<open>''\<close>, \<^verbatim>\<open>'/'\<close> or \<^verbatim>\<open>'//'\<close>) and the list of
  its components. \<open>Path\<close> is the constructor from a string (\<^verbatim>\<open>posixpath.splitroot\<close>,
  then the split at \<^verbatim>\<open>/\<close> that drops empty and \<^verbatim>\<open>.\<close> components), \<open>parent\<close> the
  property \<^verbatim>\<open>.parent\<close> (lexical: a path without components is its own parent),
  \<open>joinpath\<close> the operator \<^verbatim>\<open>/\<close> with a relative segment and \<open>str_path\<close> is
  \<^verbatim>\<open>str(p)\<close>.
\<close>

record path =
  path_root :: string
  path_parts :: "string list"

definition splitroot :: "string \<Rightarrow> string \<times> string" where
  "splitroot p =
     (if take 1 p \<noteq> ''/'' then ([], p)
      else if take 1 (drop 1 p) \<noteq> ''/'' \<or> take 1 (drop 2 p) = ''/'' then (''/'', drop 1 p)
      else (take 2 p, drop 2 p))"

definition Path :: "string \<Rightarrow> path" where
  "Path s =
     (if s = [] then \<lparr>path_root = [], path_parts = []\<rparr>
      else (case splitroot s of (r, rel) \<Rightarrow>
        \<lparr>path_root = r,
         path_parts = filter (\<lambda>x. x \<noteq> [] \<and> x \<noteq> ''.'') (split_sep (CHR ''/'') rel)\<rparr>))"

definition parent :: "path \<Rightarrow> path" where
  "parent p = (if path_parts p = [] then p else p\<lparr>path_parts := butlast (path_parts p)\<rparr>)"

definition joinpath :: "path \<Rightarrow> string \<Rightarrow> path" where
  "joinpath p seg =
     p\<lparr>path_parts := path_parts p @ filter (\<lambda>x. x \<noteq> [] \<and> x \<noteq> ''.'') (split_sep (CHR ''/'') seg)\<rparr>"

definition str_path :: "path \<Rightarrow> string" where
  "str_path p =
     (let s = path_root p @ join ''/'' (path_parts p) in if s = [] then ''.'' else s)"


section \<open>The literal data of \<open>generate_sample_data\<close>\<close>

text \<open>
  A Python list of \<^verbatim>\<open>str\<close> or of \<^verbatim>\<open>float\<close>. A float literal is modelled by the
  decimal number the source writes.
\<close>

datatype column = StrList "string list" | FloatList "real list"

fun len_column :: "column \<Rightarrow> nat" where
  "len_column (StrList xs) = length xs"
| "len_column (FloatList xs) = length xs"

definition customer_id :: "string list" where
  "customer_id = map (\<lambda>i. ''CUST'' @ format_04d i) [1..20]"

definition customer_name :: "string list" where
  "customer_name =
     [''Alice Johnson'', ''Bob Smith'', ''Charlie Brown'', ''Diana Prince'', ''Eve Wilson'',
      ''Frank Miller'', ''Grace Lee'', ''Henry Davis'', ''Ivy Chen'', ''Jack Taylor'',
      ''Karen White'', ''Liam O'Brien'', ''Mia Garcia'', ''Noah Martinez'', ''Olivia Anderson'',
      ''Paul Thompson'', ''Quinn Jackson'', ''Rachel Green'', ''Sam Wilson'', ''Tina Brown'']"

definition customer_email :: "string list" where
  "customer_email =
     [''alice.j@example.com'', ''bob.smith@example.com'', ''charlie.b@example.com'',
      ''diana.p@example.com'', ''eve.w@example.com'', ''frank.m@example.com'',
      ''grace.lee@example.com'', ''henry.d@example.com'', ''ivy.chen@example.com'',
      ''jack.t@example.com'', ''karen.w@example.com'', ''liam.ob@example.com'',
      ''mia.g@example.com'', ''noah.m@example.com'', ''olivia.a@example.com'',
      ''paul.t@example.com'', ''quinn.j@example.com'', ''rachel.g@example.com'',
      ''sam.w@example.com'', ''tina.b@example.com'']"

definition ssn :: "string list" where
  "ssn =
     [''123-45-6789'', ''234-56-7890'', ''345-67-8901'', ''456-78-9012'', ''567-89-0123'',
      ''678-90-1234'', ''789-01-2345'', ''890-12-3456'', ''901-23-4567'', ''012-34-5678'',
      ''111-22-3333'', ''222-33-4444'', ''333-44-5555'', ''444-55-6666'', ''555-66-7777'',
      ''666-77-8888'', ''777-88-9999'', ''888-99-0000'', ''999-00-1111'', ''000-11-2222'']"

definition sales_region :: "string list" where
  "sales_region =
     [''APAC'', ''APAC'', ''APAC'', ''APAC'', ''APAC'',
      ''EMEA'', ''EMEA'', ''EMEA'', ''EMEA'', ''EMEA'',
      ''AMER'', ''AMER'', ''AMER'', ''AMER'', ''AMER'',
      ''APAC'', ''APAC'', ''EMEA'', ''AMER'', ''APAC'']"

definition sales_amount :: "real list" where
  "sales_amount =
     [1250.50, 2300.75, 1890.25, 3200.00, 1450.30,
      2100.00, 1750.50, 2900.25, 1650.75, 2400.00,
      1950.50, 2800.25, 1550.75, 3100.00, 2200.50,
      1850.25, 2600.75, 1400.00, 2700.50, 1900.25]"

definition sale_date :: "string list" where
  "sale_date =
     [''2024-01-15'', ''2024-01-16'', ''2024-01-17'', ''2024-01-18'', ''2024-01-19'',
      ''2024-02-10'', ''2024-02-11'', ''2024-02-12'', ''2024-02-13'', ''2024-02-14'',
      ''2024-03-05'', ''2024-03-06'', ''2024-03-07'', ''2024-03-08'', ''2024-03-09'',
      ''2024-04-20'', ''2024-04-21'', ''2024-04-22'', ''2024-04-23'', ''2024-04-24'']"

text \<open>The dictionary \<^verbatim>\<open>data\<close>, in insertion order.\<close>

definition data :: "(string \<times> column) list" where
  "data =
     [(''customer_id'', StrList customer_id),
      (''customer_name'', StrList customer_name),
      (''customer_email'', StrList customer_email),
      (''ssn'', StrList ssn),
      (''sales_region'', StrList sales_region),
      (''sales_amount'', FloatList sales_amount),
      (''sale_date'', StrList sale_date)]"


section \<open>Exceptions\<close>

text \<open>
  The two handlers of the script tell \<^verbatim>\<open>ImportError\<close> (with its subclass
  \<^verbatim>\<open>ModuleNotFoundError\<close>) from every other subclass of \<^verbatim>\<open>Exception\<close>
  (\<^verbatim>\<open>ValueError\<close>, \<^verbatim>\<open>KeyError\<close>, \<^verbatim>\<open>OSError\<close>, the Arrow errors). An
  exception carries \<^verbatim>\<open>str(e)\<close>, the text that \<^verbatim>\<open>{e}\<close> formats.
\<close>

datatype exn = ImportError string | Exception string


section \<open>pandas and pyarrow: data frames and tables\<close>

text \<open>
  A data frame built from a dictionary of lists keeps the columns in insertion order. Its
  length is the length of its index, here the common length of the columns.
\<close>

type_synonym dataframe = "(string \<times> column) list"

definition len_df :: "dataframe \<Rightarrow> nat" where
  "len_df df = (case df of [] \<Rightarrow> 0 | (name, c) # rest \<Rightarrow> len_column c)"

text \<open>\<^verbatim>\<open>df[key]\<close> raises \<^verbatim>\<open>KeyError(key)\<close> for a missing column.\<close>

definition getitem :: "dataframe \<Rightarrow> string \<Rightarrow> exn + column" where
  "getitem df key =
     (case map_of df key of None \<Rightarrow> Inl (Exception (repr key)) | Some c \<Rightarrow> Inr c)"

text \<open>\<^verbatim>\<open>series == value\<close> for a string value: the boolean mask, row by row.\<close>

fun eq_mask :: "column \<Rightarrow> string \<Rightarrow> bool list" where
  "eq_mask (StrList xs) v = map (\<lambda>x. x = v) xs"
| "eq_mask (FloatList xs) v = map (\<lambda>x. False) xs"

text \<open>\<^verbatim>\<open>df[mask]\<close>: the rows whose mask entry is true, in every column.\<close>

definition select :: "bool list \<Rightarrow> 'a list \<Rightarrow> 'a list" where
  "select keep xs = map snd (filter fst (zip keep xs))"

fun mask_column :: "bool list \<Rightarrow> column \<Rightarrow> column" where
  "mask_column keep (StrList xs) = StrList (select keep xs)"
| "mask_column keep (FloatList xs) = FloatList (select keep xs)"

definition take_rows :: "dataframe \<Rightarrow> bool list \<Rightarrow> dataframe" where
  "take_rows df keep = map (\<lambda>(name, c). (name, mask_column keep c)) df"

text \<open>The expression \<^verbatim>\<open>len(df[df[key] == value])\<close> of the summary.\<close>

definition count_where :: "dataframe \<Rightarrow> string \<Rightarrow> string \<Rightarrow> exn + nat" where
  "count_where df key v =
     (case getitem df key of
        Inl e \<Rightarrow> Inl e
      | Inr c \<Rightarrow> Inr (len_df (take_rows df (eq_mask c v))))"

text \<open>
  An Arrow table: named arrays. \<^verbatim>\<open>Table.from_pandas\<close> turns a column of Python
  strings into an array of type \<^verbatim>\<open>string\<close> and a column of floats into an array of
  type \<^verbatim>\<open>double\<close>; the range index of the frame becomes no column.
\<close>

datatype arrow_type = ArrowString | ArrowDouble

datatype array = StringArray "string list" | DoubleArray "real list"

type_synonym table = "(string \<times> array) list"

fun to_array :: "column \<Rightarrow> array" where
  "to_array (StrList xs) = StringArray xs"
| "to_array (FloatList xs) = DoubleArray xs"

fun array_type :: "array \<Rightarrow> arrow_type" where
  "array_type (StringArray xs) = ArrowString"
| "array_type (DoubleArray xs) = ArrowDouble"

fun len_array :: "array \<Rightarrow> nat" where
  "len_array (StringArray xs) = length xs"
| "len_array (DoubleArray xs) = length xs"

definition table_of :: "dataframe \<Rightarrow> table" where
  "table_of df = map (\<lambda>(name, c). (name, to_array c)) df"

definition schema :: "table \<Rightarrow> (string \<times> arrow_type) list" where
  "schema t = map (\<lambda>(name, a). (name, array_type a)) t"

definition column_names :: "table \<Rightarrow> string list" where
  "column_names t = map fst t"

definition num_columns :: "table \<Rightarrow> nat" where
  "num_columns t = length t"

definition num_rows :: "table \<Rightarrow> nat" where
  "num_rows t = (case t of [] \<Rightarrow> 0 | (name, a) # rest \<Rightarrow> len_array a)"


section \<open>The world the script runs in\<close>

text \<open>
  The state the script can change: the directories and files of the file system (a file
  is its bytes), the text written to standard output, and the log of the library calls
  made so far, each with its arguments.
\<close>

datatype call =
    Call_DataFrame "(string \<times> column) list"
  | Call_from_pandas dataframe
  | Call_mkdir path
  | Call_write_table table path string

record world =
  dirs :: "path set"
  files :: "path \<rightharpoonup> string"
  stdout :: string
  calls :: "call list"

text \<open>
  What the script does not decide: where it is stored (\<^verbatim>\<open>__file__\<close>), which modules
  can be imported (\<open>import_error\<close> gives the message of the \<^verbatim>\<open>ImportError\<close> for a
  module that cannot), whether a library call raises in the current state (\<open>fault\<close>),
  what a failed write leaves at the path (\<open>residue\<close>: \<open>None\<close> for nothing written,
  \<open>Some b\<close> for a file cut short with bytes \<open>b\<close>), and the bytes the installed Parquet
  writer produces for a table and a compression codec (\<open>parquet_bytes\<close>).
\<close>

record env =
  dunder_file :: string
  import_error :: "string \<Rightarrow> string option"
  fault :: "call \<Rightarrow> world \<Rightarrow> exn option"
  residue :: "path \<Rightarrow> world \<Rightarrow> string option"
  parquet_bytes :: "table \<Rightarrow> string \<Rightarrow> string"

text \<open>
  A statement runs in a world and leaves a world, with an exception or a value. An
  exception ends the sequence; what was done before it stays done.
\<close>

type_synonym 'a prog = "world \<Rightarrow> world \<times> (exn + 'a)"

definition returns :: "'a \<Rightarrow> 'a prog" where
  "returns x w = (w, Inr x)"

definition and_then :: "'a prog \<Rightarrow> ('a \<Rightarrow> 'b prog) \<Rightarrow> 'b prog" where
  "and_then m f w = (case m w of (w', Inl e) \<Rightarrow> (w', Inl e) | (w', Inr x) \<Rightarrow> f x w')"

definition lift :: "exn + 'a \<Rightarrow> 'a prog" where
  "lift r w = (w, r)"

definition logged :: "call \<Rightarrow> world \<Rightarrow> world" where
  "logged c w = w\<lparr>calls := calls w @ [c]\<rparr>"

text \<open>\<^verbatim>\<open>print(s)\<close> writes the text and a newline.\<close>

definition print :: "string \<Rightarrow> unit prog" where
  "print s w = (w\<lparr>stdout := stdout w @ s @ [CHR 0x0A]\<rparr>, Inr ())"

text \<open>
  \<^verbatim>\<open>pd.DataFrame(d)\<close> refuses columns of different lengths with a
  \<^verbatim>\<open>ValueError\<close>.
\<close>

definition DataFrame :: "env \<Rightarrow> (string \<times> column) list \<Rightarrow> dataframe prog" where
  "DataFrame E d w =
     (case fault E (Call_DataFrame d) w of
        Some e \<Rightarrow> (logged (Call_DataFrame d) w, Inl e)
      | None \<Rightarrow>
          (if list_all (\<lambda>(name, c). len_column c = len_df d) d
           then (logged (Call_DataFrame d) w, Inr d)
           else (logged (Call_DataFrame d) w,
                 Inl (Exception ''All arrays must be of the same length''))))"

definition from_pandas :: "env \<Rightarrow> dataframe \<Rightarrow> table prog" where
  "from_pandas E df w =
     (case fault E (Call_from_pandas df) w of
        Some e \<Rightarrow> (logged (Call_from_pandas df) w, Inl e)
      | None \<Rightarrow> (logged (Call_from_pandas df) w, Inr (table_of df)))"

text \<open>\<^verbatim>\<open>p.mkdir(exist_ok=True)\<close>: the directory exists afterwards, or the call raises.\<close>

definition mkdir :: "env \<Rightarrow> path \<Rightarrow> unit prog" where
  "mkdir E p w =
     (case fault E (Call_mkdir p) w of
        Some e \<Rightarrow> (logged (Call_mkdir p) w, Inl e)
      | None \<Rightarrow> ((logged (Call_mkdir p) w)\<lparr>dirs := insert p (dirs w)\<rparr>, Inr ()))"

text \<open>
  \<^verbatim>\<open>pq.write_table(table, p, compression=c)\<close>: the file at \<open>p\<close> holds the bytes of
  the table afterwards, whatever it held before; a call that raises leaves what
  \<open>residue\<close> says.
\<close>

definition write_table :: "env \<Rightarrow> table \<Rightarrow> path \<Rightarrow> string \<Rightarrow> unit prog" where
  "write_table E t p c w =
     (case fault E (Call_write_table t p c) w of
        Some e \<Rightarrow>
          (case residue E p w of
             None \<Rightarrow> (logged (Call_write_table t p c) w, Inl e)
           | Some b \<Rightarrow> ((logged (Call_write_table t p c) w)\<lparr>files := (files w)(p \<mapsto> b)\<rparr>, Inl e))
      | None \<Rightarrow>
          ((logged (Call_write_table t p c) w)\<lparr>files := (files w)(p \<mapsto> parquet_bytes E t c)\<rparr>,
           Inr ()))"


section \<open>The script\<close>

definition generate_sample_data :: "env \<Rightarrow> path prog" where
  "generate_sample_data E =
     and_then (DataFrame E data) (\<lambda>df.
     and_then (from_pandas E df) (\<lambda>table.
     let script_dir = parent (Path (dunder_file E));
         project_root = parent script_dir;
         data_dir = joinpath project_root ''data''
     in
     and_then (mkdir E data_dir) (\<lambda>_.
     let output_file = joinpath data_dir ''sales_sample.parquet'' in
     and_then (write_table E table output_file ''snappy'') (\<lambda>_.
     and_then (print ''Sample data generated successfully!'') (\<lambda>_.
     and_then (print (''File: '' @ str_path output_file)) (\<lambda>_.
     and_then (print (''Records: '' @ str_nat (len_df df))) (\<lambda>_.
     and_then (print ([CHR 0x0A] @ ''Data summary:'')) (\<lambda>_.
     and_then (lift (count_where df ''sales_region'' ''APAC'')) (\<lambda>apac.
     and_then (print (''  APAC records: '' @ str_nat apac)) (\<lambda>_.
     and_then (lift (count_where df ''sales_region'' ''EMEA'')) (\<lambda>emea.
     and_then (print (''  EMEA records: '' @ str_nat emea)) (\<lambda>_.
     and_then (lift (count_where df ''sales_region'' ''AMER'')) (\<lambda>amer.
     and_then (print (''  AMER records: '' @ str_nat amer)) (\<lambda>_.
     returns output_file))))))))))))))"

text \<open>
  How a run ends: the world it leaves, the exit status of the process, and the
  exception the interpreter reports with a traceback on standard error when none of the
  script's handlers caught it.
\<close>

record outcome =
  world_after :: world
  exit_status :: nat
  uncaught :: "exn option"

text \<open>
  The block under \<^verbatim>\<open>if __name__ == '__main__'\<close>. The handler for
  \<^verbatim>\<open>ImportError\<close> comes first; \<^verbatim>\<open>sys.exit(1)\<close> ends the process with status 1,
  and a run that reaches the end of the script ends with status 0.
\<close>

definition main :: "env \<Rightarrow> world \<Rightarrow> outcome" where
  "main E w =
     (case generate_sample_data E w of
        (w', Inr output_file) \<Rightarrow> \<lparr>world_after = w', exit_status = 0, uncaught = None\<rparr>
      | (w', Inl (ImportError m)) \<Rightarrow>
          \<lparr>world_after =
             fst (and_then (print ''Error: Required Python packages not installed.'')
                    (\<lambda>_. print ''Please install: pip install pandas pyarrow'') w'),
           exit_status = 1, uncaught = None\<rparr>
      | (w', Inl (Exception m)) \<Rightarrow>
          \<lparr>world_after = fst (print (''Error generating sample data: '' @ m) w'),
           exit_status = 1, uncaught = None\<rparr>)"

text \<open>
  The import statements at the top of the module, in order. They stand outside the
  \<^verbatim>\<open>try\<close> block: the first module that cannot be imported raises at module level,
  and the interpreter ends the process with status 1 and a traceback.
\<close>

definition module_imports :: "string list" where
  "module_imports = [''pandas'', ''pyarrow'', ''pyarrow.parquet'', ''pathlib'', ''sys'']"

fun import_all :: "env \<Rightarrow> string list \<Rightarrow> exn option" where
  "import_all E [] = None"
| "import_all E (m # ms) =
     (case import_error E m of Some msg \<Rightarrow> Some (ImportError msg) | None \<Rightarrow> import_all E ms)"

definition script :: "env \<Rightarrow> world \<Rightarrow> outcome" where
  "script E w =
     (case import_all E module_imports of
        Some e \<Rightarrow> \<lparr>world_after = w, exit_status = 1, uncaught = Some e\<rparr>
      | None \<Rightarrow> main E w)"

section \<open>Notions of the specification\<close>

text \<open>
  The path the specification resolves: \<^verbatim>\<open><project_root>/data/sales_sample.parquet\<close>,
  where the project root is the parent of the directory that contains the script.
\<close>

definition data_dir_of :: "string \<Rightarrow> path" where
  "data_dir_of f = joinpath (parent (parent (Path f))) ''data''"

definition output_file_of :: "string \<Rightarrow> path" where
  "output_file_of f = joinpath (data_dir_of f) ''sales_sample.parquet''"

text \<open>Console output as lines: each line is followed by a newline.\<close>

definition unlines :: "string list \<Rightarrow> string" where
  "unlines ls = concat (map (\<lambda>l. l @ [CHR 0x0A]) ls)"

text \<open>The report of a successful run of a script stored at \<open>f\<close>.\<close>

definition report :: "string \<Rightarrow> string" where
  "report f = unlines
     [''Sample data generated successfully!'',
      ''File: '' @ str_path (output_file_of f),
      ''Records: 20'',
      [],
      ''Data summary:'',
      ''  APAC records: 8'',
      ''  EMEA records: 6'',
      ''  AMER records: 6'']"

text \<open>
  The report as the specification lists it: banner, file path, record count, a blank
  line, and the three region lines, and no other line.
\<close>

definition report_as_listed :: "string \<Rightarrow> nat \<Rightarrow> nat \<Rightarrow> nat \<Rightarrow> nat \<Rightarrow> string" where
  "report_as_listed f n apac emea amer = unlines
     [''Sample data generated successfully!'',
      ''File: '' @ str_path (output_file_of f),
      ''Records: '' @ str_nat n,
      [],
      ''  APAC records: '' @ str_nat apac,
      ''  EMEA records: '' @ str_nat emea,
      ''  AMER records: '' @ str_nat amer]"

text \<open>
  The number a string of decimal digits denotes, and a date in the form
  \<^verbatim>\<open>YYYY-MM-DD\<close> read as year, month and day, with the order of the calendar.
\<close>

definition is_digit :: "char \<Rightarrow> bool" where
  "is_digit c \<longleftrightarrow> (48::nat) \<le> of_char c \<and> of_char c \<le> (57::nat)"

definition nat_of_digits :: "string \<Rightarrow> nat" where
  "nat_of_digits s = foldl (\<lambda>acc c. 10 * acc + (of_char c - 48)) 0 s"




text \<open>The four library calls of a run without failure, in the order of the source.\<close>

definition planned_calls :: "string \<Rightarrow> call list" where
  "planned_calls f =
     [Call_DataFrame data, Call_from_pandas data, Call_mkdir (data_dir_of f),
      Call_write_table (table_of data) (output_file_of f) ''snappy'']"


section \<open>Concrete runs\<close>

text \<open>An empty world, and a script stored in the \<^verbatim>\<open>scripts\<close> directory of a checkout.\<close>

definition w0 :: world where
  "w0 = \<lparr>dirs = {}, files = Map.empty, stdout = [], calls = []\<rparr>"

definition script_location :: string where
  "script_location = ''/repo/scripts/generate_sample_data.py''"

text \<open>A world that holds the output of an earlier, different run.\<close>

definition w_stale :: world where
  "w_stale =
     w0\<lparr>files := [\<lparr>path_root = ''/'', path_parts = [''repo'', ''data'', ''sales_sample.parquet'']\<rparr>
                    \<mapsto> ''stale'']\<rparr>"

text \<open>Every module can be imported and no call raises; the writer's bytes are a stand-in.\<close>

definition E_ok :: env where
  "E_ok =
     \<lparr>dunder_file = script_location,
      import_error = (\<lambda>m. None),
      fault = (\<lambda>c w. None),
      residue = (\<lambda>p w. None),
      parquet_bytes = (\<lambda>t c. ''PAR1-'' @ c @ ''-'' @ str_nat (num_rows t) @ ''-PAR1'')\<rparr>"

text \<open>pandas is not installed.\<close>

definition E_no_pandas :: env where
  "E_no_pandas =
     E_ok\<lparr>import_error :=
            (\<lambda>m. if m = ''pandas'' then Some (''No module named '' @ repr ''pandas'') else None)\<rparr>"

text \<open>The disk fills up during the write, which leaves the start of the file behind.\<close>

definition E_disk_full :: env where
  "E_disk_full =
     E_ok\<lparr>fault :=
            (\<lambda>c w. case c of
                Call_write_table t p codec \<Rightarrow>
                  Some (Exception ''[Errno 28] No space left on device'')
              | _ \<Rightarrow> None),
          residue := (\<lambda>p w. Some ''PAR1'')\<rparr>"


section \<open>Facts about the literal data\<close>

lemma customer_id_value:
  "customer_id =
     [''CUST0001'', ''CUST0002'', ''CUST0003'', ''CUST0004'', ''CUST0005'',
      ''CUST0006'', ''CUST0007'', ''CUST0008'', ''CUST0009'', ''CUST0010'',
      ''CUST0011'', ''CUST0012'', ''CUST0013'', ''CUST0014'', ''CUST0015'',
      ''CUST0016'', ''CUST0017'', ''CUST0018'', ''CUST0019'', ''CUST0020'']"
  by code_simp

lemma column_lengths:
  "length customer_id = 20" "length customer_name = 20" "length customer_email = 20"
  "length ssn = 20" "length sales_region = 20" "length sales_amount = 20"
  "length sale_date = 20"
  by (simp_all add: customer_id_value customer_name_def customer_email_def ssn_def
        sales_region_def sales_amount_def sale_date_def)

lemma len_df_data: "len_df data = 20"
  by (simp add: len_df_def data_def column_lengths)

lemma data_all_20: "list_all (\<lambda>(name, c). len_column c = 20) data"
  by (simp add: data_def column_lengths)

lemma getitem_sales_region: "getitem data ''sales_region'' = Inr (StrList sales_region)"
  by (simp add: getitem_def data_def)

lemma count_where_data:
  "count_where data ''sales_region'' ''APAC'' = Inr 8"
  "count_where data ''sales_region'' ''EMEA'' = Inr 6"
  "count_where data ''sales_region'' ''AMER'' = Inr 6"
  unfolding count_where_def getitem_sales_region
  by (simp_all add: take_rows_def len_df_def data_def select_def sales_region_def
        customer_id_value)

lemma str_nat_values: "str_nat 20 = ''20''" "str_nat 8 = ''8''" "str_nat 6 = ''6''"
  by code_simp+

lemma table_of_data:
  "table_of data =
     [(''customer_id'', StringArray customer_id),
      (''customer_name'', StringArray customer_name),
      (''customer_email'', StringArray customer_email),
      (''ssn'', StringArray ssn),
      (''sales_region'', StringArray sales_region),
      (''sales_amount'', DoubleArray sales_amount),
      (''sale_date'', StringArray sale_date)]"
  by (simp add: table_of_def data_def)

section \<open>The runs of \<open>generate_sample_data\<close>\<close>

lemma generate_sample_data_cases:
  "generate_sample_data E w =
    (let t = table_of data; dd = data_dir_of (dunder_file E);
         out = output_file_of (dunder_file E);
         w1 = logged (Call_DataFrame data) w;
         w2 = logged (Call_from_pandas data) w1;
         w3 = logged (Call_mkdir dd) w2;
         w4 = logged (Call_write_table t out ''snappy'') (w3\<lparr>dirs := insert dd (dirs w)\<rparr>)
     in case fault E (Call_DataFrame data) w of Some e \<Rightarrow> (w1, Inl e) | None \<Rightarrow>
        (case fault E (Call_from_pandas data) w1 of Some e \<Rightarrow> (w2, Inl e) | None \<Rightarrow>
        (case fault E (Call_mkdir dd) w2 of Some e \<Rightarrow> (w3, Inl e) | None \<Rightarrow>
        (case fault E (Call_write_table t out ''snappy'') (w3\<lparr>dirs := insert dd (dirs w)\<rparr>) of
           Some e \<Rightarrow>
             (case residue E out (w3\<lparr>dirs := insert dd (dirs w)\<rparr>) of
                None \<Rightarrow> (w4, Inl e)
              | Some b \<Rightarrow> (w4\<lparr>files := (files w)(out \<mapsto> b)\<rparr>, Inl e))
         | None \<Rightarrow>
             (w4\<lparr>files := (files w)(out \<mapsto> parquet_bytes E t ''snappy''),
                 stdout := stdout w @ report (dunder_file E)\<rparr>, Inr out)))))"
  unfolding generate_sample_data_def Let_def
  by (simp add: and_then_def DataFrame_def from_pandas_def mkdir_def write_table_def
        print_def lift_def returns_def logged_def data_all_20 len_df_data
        count_where_data str_nat_values report_def unlines_def data_dir_of_def
        output_file_of_def split: option.splits)

lemma generate_success:
  assumes "generate_sample_data E w = (w', Inr p)"
  shows "p = output_file_of (dunder_file E)"
    and "calls w' = calls w @ planned_calls (dunder_file E)"
    and "files w' = (files w)(p \<mapsto> parquet_bytes E (table_of data) ''snappy'')"
    and "dirs w' = insert (data_dir_of (dunder_file E)) (dirs w)"
    and "stdout w' = stdout w @ report (dunder_file E)"
  using assms unfolding generate_sample_data_cases Let_def
  by (auto split: option.splits simp: logged_def planned_calls_def)


lemma output_file_location:
  "output_file_of script_location =
     \<lparr>path_root = ''/'', path_parts = [''repo'', ''data'', ''sales_sample.parquet'']\<rparr>"
  "data_dir_of script_location = \<lparr>path_root = ''/'', path_parts = [''repo'', ''data'']\<rparr>"
  "Path script_location =
     \<lparr>path_root = ''/'', path_parts = [''repo'', ''scripts'', ''generate_sample_data.py'']\<rparr>"
  by (simp_all add: output_file_of_def data_dir_of_def script_location_def Path_def
        splitroot_def parent_def joinpath_def)

lemma imports_ok: "import_all E_ok module_imports = None"
  "import_all E_disk_full module_imports = None"
  by (simp_all add: E_ok_def E_disk_full_def module_imports_def)

lemma run_E_ok:
  "generate_sample_data E_ok w =
     (w\<lparr>calls := calls w @ planned_calls script_location,
        dirs := insert (data_dir_of script_location) (dirs w),
        files := (files w)(output_file_of script_location \<mapsto> ''PAR1-snappy-20-PAR1''),
        stdout := stdout w @ report script_location\<rparr>,
      Inr (output_file_of script_location))"
  unfolding generate_sample_data_cases Let_def
  by (simp add: E_ok_def logged_def planned_calls_def num_rows_def table_of_data
        column_lengths str_nat_values)


section \<open>Claims\<close>

text \<open>
  Claim C1, as stated: the literal \<open>sales_region\<close> list holds 11 rows for APAC, 5 for EMEA
  and 4 for AMER. The list of the source does not: the three counts cannot be 11, 5
  and 4 together.
\<close>

theorem region_counts_as_claimed_counterexample:
  "\<not> (length (filter (\<lambda>r. r = ''APAC'') sales_region) = 11
      \<and> length (filter (\<lambda>r. r = ''EMEA'') sales_region) = 5
      \<and> length (filter (\<lambda>r. r = ''AMER'') sales_region) = 4)"
  by (simp add: sales_region_def)

text \<open>
  Claim C1, amended: the literal \<open>sales_region\<close> list holds exactly 8 rows for APAC, 6
  for EMEA and 6 for AMER; counting the assembled frame, as the summary does with
  \<^verbatim>\<open>len(df[df['sales_region'] == r])\<close>, gives the same numbers, and every successful
  run prints them in its three region lines.
\<close>

theorem region_counts:
  assumes "generate_sample_data E w = (w', Inr p)"
  shows "length (filter (\<lambda>r. r = ''APAC'') sales_region) = 8
       \<and> length (filter (\<lambda>r. r = ''EMEA'') sales_region) = 6
       \<and> length (filter (\<lambda>r. r = ''AMER'') sales_region) = 6
       \<and> count_where data ''sales_region'' ''APAC'' = Inr 8
       \<and> count_where data ''sales_region'' ''EMEA'' = Inr 6
       \<and> count_where data ''sales_region'' ''AMER'' = Inr 6
       \<and> stdout w' =
           stdout w @
           unlines [''Sample data generated successfully!'',
                    ''File: '' @ str_path p, ''Records: 20'', [], ''Data summary:''] @
           unlines [''  APAC records: 8'', ''  EMEA records: 6'', ''  AMER records: 6'']"
proof -
  have "length (filter (\<lambda>r. r = ''APAC'') sales_region) = 8"
    "length (filter (\<lambda>r. r = ''EMEA'') sales_region) = 6"
    "length (filter (\<lambda>r. r = ''AMER'') sales_region) = 6"
    by (simp_all add: sales_region_def)
  moreover have "stdout w' = stdout w @ report (dunder_file E)"
    and "p = output_file_of (dunder_file E)"
    using generate_success [OF assms] by simp_all
  ultimately show ?thesis
    by (simp add: count_where_data report_def unlines_def)
qed

text \<open>A successful run in the empty world and its summary.\<close>

theorem region_counts_witness:
  "generate_sample_data E_ok w0 = (fst (generate_sample_data E_ok w0), Inr (output_file_of script_location))
   \<and> count_where data ''sales_region'' ''APAC'' = Inr 8
   \<and> stdout (fst (generate_sample_data E_ok w0)) =
       unlines [''Sample data generated successfully!'',
                ''File: /repo/data/sales_sample.parquet'', ''Records: 20'', [],
                ''Data summary:'', ''  APAC records: 8'', ''  EMEA records: 6'',
                ''  AMER records: 6'']"
proof -
  have h: "generate_sample_data E_ok w0 =
             (fst (generate_sample_data E_ok w0), Inr (output_file_of script_location))"
    by (simp add: run_E_ok)
  from region_counts [OF h]
  have c: "count_where data ''sales_region'' ''APAC'' = Inr 8
   \<and> stdout (fst (generate_sample_data E_ok w0)) =
       unlines [''Sample data generated successfully!'',
                ''File: /repo/data/sales_sample.parquet'', ''Records: 20'', [],
                ''Data summary:'', ''  APAC records: 8'', ''  EMEA records: 6'',
                ''  AMER records: 6'']"
    by (simp add: w0_def unlines_def output_file_location str_path_def)
  from h c show ?thesis by (rule conjI)
qed

text \<open>
  Claim C2: when pandas or pyarrow cannot be loaded, the program exits with status 1 and
  prints the installation instructions, without attempting any generation step. The run
  of the script where pandas is not installed: the import at module level raises before
  the \<^verbatim>\<open>try\<close> block is entered, so the process ends with status 1 and an uncaught
  \<^verbatim>\<open>ImportError\<close>, no library call is made, and nothing is printed on standard
  output, the installation instructions included.
\<close>

theorem missing_pandas_run:
  "script E_no_pandas w0 =
     \<lparr>world_after = w0, exit_status = 1,
      uncaught = Some (ImportError (''No module named '' @ [CHR 0x27] @ ''pandas'' @ [CHR 0x27]))\<rparr>
   \<and> stdout (world_after (script E_no_pandas w0)) = []
   \<and> calls (world_after (script E_no_pandas w0)) = []"
  by (simp add: script_def E_no_pandas_def E_ok_def module_imports_def repr_def w0_def)

text \<open>
  Claim C3: on every successful run the table that is built and written has exactly 20
  rows and the 7 columns \<open>customer_id\<close>, \<open>customer_name\<close>, \<open>customer_email\<close>, \<open>ssn\<close>,
  \<open>sales_region\<close>, \<open>sales_amount\<close>, \<open>sale_date\<close> in this order, all of string type
  except the decimal \<open>sales_amount\<close>; every one of the seven sequences has length 20.
\<close>

theorem written_table_shape:
  assumes "generate_sample_data E w = (w', Inr p)"
  shows "last (calls w') = Call_write_table (table_of data) p ''snappy''
       \<and> files w' p = Some (parquet_bytes E (table_of data) ''snappy'')
       \<and> num_rows (table_of data) = 20
       \<and> num_columns (table_of data) = 7
       \<and> column_names (table_of data) =
           [''customer_id'', ''customer_name'', ''customer_email'', ''ssn'', ''sales_region'',
            ''sales_amount'', ''sale_date'']
       \<and> schema (table_of data) =
           [(''customer_id'', ArrowString), (''customer_name'', ArrowString),
            (''customer_email'', ArrowString), (''ssn'', ArrowString),
            (''sales_region'', ArrowString), (''sales_amount'', ArrowDouble),
            (''sale_date'', ArrowString)]
       \<and> map (\<lambda>(name, c). (name, len_column c)) data =
           [(''customer_id'', 20), (''customer_name'', 20), (''customer_email'', 20),
            (''ssn'', 20), (''sales_region'', 20), (''sales_amount'', 20), (''sale_date'', 20)]
       \<and> map (\<lambda>(name, a). len_array a) (table_of data) = replicate 7 20"
proof -
  have "last (calls w') = Call_write_table (table_of data) p ''snappy''"
    and "files w' p = Some (parquet_bytes E (table_of data) ''snappy'')"
    using generate_success [OF assms] by (simp_all add: planned_calls_def)
  moreover have "num_rows (table_of data) = 20" "num_columns (table_of data) = 7"
    by (simp_all add: num_rows_def num_columns_def table_of_data column_lengths)
  moreover have "column_names (table_of data) =
           [''customer_id'', ''customer_name'', ''customer_email'', ''ssn'', ''sales_region'',
            ''sales_amount'', ''sale_date'']"
    by (simp add: column_names_def table_of_data)
  moreover have "schema (table_of data) =
           [(''customer_id'', ArrowString), (''customer_name'', ArrowString),
            (''customer_email'', ArrowString), (''ssn'', ArrowString),
            (''sales_region'', ArrowString), (''sales_amount'', ArrowDouble),
            (''sale_date'', ArrowString)]"
    by (simp add: schema_def table_of_data)
  moreover have "map (\<lambda>(name, c). (name, len_column c)) data =
           [(''customer_id'', 20), (''customer_name'', 20), (''customer_email'', 20),
            (''ssn'', 20), (''sales_region'', 20), (''sales_amount'', 20), (''sale_date'', 20)]"
    by (simp add: data_def column_lengths)
  moreover have "map (\<lambda>(name, a). len_array a) (table_of data) = replicate 7 20"
    by (simp add: table_of_data column_lengths numeral_eq_Suc)
  ultimately show ?thesis by simp
qed

text \<open>The table written by a successful run in the empty world.\<close>

theorem written_table_shape_witness:
  "generate_sample_data E_ok w0 =
     (fst (generate_sample_data E_ok w0), Inr (output_file_of script_location))
   \<and> last (calls (fst (generate_sample_data E_ok w0))) =
       Call_write_table (table_of data) (output_file_of script_location) ''snappy''
   \<and> num_rows (table_of data) = 20 \<and> num_columns (table_of data) = 7"
proof -
  have h: "generate_sample_data E_ok w0 =
             (fst (generate_sample_data E_ok w0), Inr (output_file_of script_location))"
    by (simp add: run_E_ok)
  from written_table_shape [OF h]
  have c: "last (calls (fst (generate_sample_data E_ok w0))) =
       Call_write_table (table_of data) (output_file_of script_location) ''snappy''
   \<and> num_rows (table_of data) = 20 \<and> num_columns (table_of data) = 7"
    by blast
  from h c show ?thesis by (rule conjI)
qed

text \<open>
  Claim C4: the \<open>customer_id\<close> column is exactly \<^verbatim>\<open>CUST0001\<close>, ..., \<^verbatim>\<open>CUST0020\<close>:
  each value is \<^verbatim>\<open>CUST\<close> followed by four decimal digits, the numbers the digits
  denote are 1, 2, ..., 20 in row order, and the values are pairwise distinct.
\<close>

theorem customer_id_sequence:
  "customer_id =
     [''CUST0001'', ''CUST0002'', ''CUST0003'', ''CUST0004'', ''CUST0005'',
      ''CUST0006'', ''CUST0007'', ''CUST0008'', ''CUST0009'', ''CUST0010'',
      ''CUST0011'', ''CUST0012'', ''CUST0013'', ''CUST0014'', ''CUST0015'',
      ''CUST0016'', ''CUST0017'', ''CUST0018'', ''CUST0019'', ''CUST0020'']
   \<and> list_all (\<lambda>s. take 4 s = ''CUST'' \<and> length (drop 4 s) = 4 \<and> list_all is_digit (drop 4 s))
        customer_id
   \<and> map (\<lambda>s. nat_of_digits (drop 4 s)) customer_id = [1..<21]
   \<and> distinct customer_id"
proof -
  have "list_all (\<lambda>s. take 4 s = ''CUST'' \<and> length (drop 4 s) = 4 \<and> list_all is_digit (drop 4 s))
        customer_id"
    by (simp add: customer_id_value is_digit_def)
  moreover have "map (\<lambda>s. nat_of_digits (drop 4 s)) customer_id = [1..<21]"
    by (simp add: customer_id_value nat_of_digits_def upt_rec)
  moreover have "distinct customer_id"
    by (simp add: customer_id_value)
  ultimately show ?thesis
    using customer_id_value by simp
qed





text \<open>
  Claim C7, as stated: the console output of a successful run consists of, in order, the
  banner, the file path, the record count, a blank line and then the three region
  lines. A successful run prints one line more, the heading \<^verbatim>\<open>Data summary:\<close> after
  the blank line: its output has eight lines and is not the listed report of seven,
  even with the counts the run prints.
\<close>

theorem report_as_listed_counterexample:
  "stdout (world_after (script E_ok w0)) \<noteq> report_as_listed script_location 20 8 6 6
   \<and> exit_status (script E_ok w0) = 0
   \<and> length (filter (\<lambda>c. c = CHR 0x0A) (stdout (world_after (script E_ok w0)))) = 8
   \<and> length (filter (\<lambda>c. c = CHR 0x0A) (report_as_listed script_location 20 8 6 6)) = 7"
  by (simp add: script_def main_def imports_ok run_E_ok w0_def report_def
        report_as_listed_def unlines_def str_nat_values output_file_location str_path_def)

text \<open>
  Claim C7, amended: on every successful run the process exits with status 0 and the
  console output is, in order: the success banner, the file path, the total record
  count, a blank line, the heading \<^verbatim>\<open>Data summary:\<close>, and then exactly three
  region-count lines labelled APAC, EMEA, AMER.
\<close>

theorem console_report:
  assumes "import_all E module_imports = None"
      and "generate_sample_data E w = (w', Inr p)"
  shows "script E w = \<lparr>world_after = w', exit_status = 0, uncaught = None\<rparr>
       \<and> stdout w' =
           stdout w @
           unlines [''Sample data generated successfully!'',
                    ''File: '' @ str_path p,
                    ''Records: 20'',
                    [],
                    ''Data summary:'',
                    ''  APAC records: 8'',
                    ''  EMEA records: 6'',
                    ''  AMER records: 6'']"
proof -
  have "script E w = \<lparr>world_after = w', exit_status = 0, uncaught = None\<rparr>"
    by (simp add: script_def main_def assms)
  moreover have "stdout w' = stdout w @ report (dunder_file E)"
    and "p = output_file_of (dunder_file E)"
    using generate_success [OF assms(2)] by simp_all
  ultimately show ?thesis
    by (simp add: report_def)
qed

text \<open>The report of a successful run in the empty world.\<close>

theorem console_report_witness:
  "import_all E_ok module_imports = None
   \<and> generate_sample_data E_ok w0 =
       (fst (generate_sample_data E_ok w0), Inr (output_file_of script_location))
   \<and> exit_status (script E_ok w0) = 0
   \<and> stdout (world_after (script E_ok w0)) =
       unlines [''Sample data generated successfully!'',
                ''File: /repo/data/sales_sample.parquet'',
                ''Records: 20'',
                [],
                ''Data summary:'',
                ''  APAC records: 8'',
                ''  EMEA records: 6'',
                ''  AMER records: 6'']"
proof -
  have i: "import_all E_ok module_imports = None"
    by (rule imports_ok)
  have h: "generate_sample_data E_ok w0 =
       (fst (generate_sample_data E_ok w0), Inr (output_file_of script_location))"
    by (simp add: run_E_ok)
  from console_report [OF i h]
  have c: "exit_status (script E_ok w0) = 0
   \<and> stdout (world_after (script E_ok w0)) =
       unlines [''Sample data generated successfully!'',
                ''File: /repo/data/sales_sample.parquet'',
                ''Records: 20'',
                [],
                ''Data summary:'',
                ''  APAC records: 8'',
                ''  EMEA records: 6'',
                ''  AMER records: 6'']"
    by (simp add: w0_def output_file_location str_path_def)
  from i h c show ?thesis by blast
qed

text \<open>
  Claim C8: the generator is deterministic. Any two successful runs with the same
  Parquet writer leave the same bytes in their output files, whatever the worlds they
  start in (a world that already holds an output file included: it is overwritten) and
  whatever else differs in their environments; the bytes are those of the one literal
  table with snappy compression, and runs from the same location write the same path.
\<close>

theorem rerun_deterministic:
  assumes "generate_sample_data E1 w1 = (w1', Inr p1)"
      and "generate_sample_data E2 w2 = (w2', Inr p2)"
      and "parquet_bytes E2 = parquet_bytes E1"
  shows "files w1' p1 = Some (parquet_bytes E1 (table_of data) ''snappy'')
       \<and> files w2' p2 = files w1' p1
       \<and> (dunder_file E2 = dunder_file E1 \<longrightarrow> p2 = p1)"
proof -
  have "files w1' p1 = Some (parquet_bytes E1 (table_of data) ''snappy'')"
    and "p1 = output_file_of (dunder_file E1)"
    using generate_success [OF assms(1)] by simp_all
  moreover have "files w2' p2 = Some (parquet_bytes E2 (table_of data) ''snappy'')"
    and "p2 = output_file_of (dunder_file E2)"
    using generate_success [OF assms(2)] by simp_all
  ultimately show ?thesis
    using assms(3) by simp
qed

text \<open>A run over a stale output file, and a second run after it.\<close>

theorem rerun_deterministic_witness:
  "generate_sample_data E_ok w_stale =
     (fst (generate_sample_data E_ok w_stale), Inr (output_file_of script_location))
   \<and> generate_sample_data E_ok (fst (generate_sample_data E_ok w_stale)) =
     (fst (generate_sample_data E_ok (fst (generate_sample_data E_ok w_stale))),
      Inr (output_file_of script_location))
   \<and> parquet_bytes E_ok = parquet_bytes E_ok
   \<and> dunder_file E_ok = dunder_file E_ok
   \<and> files w_stale (output_file_of script_location) = Some ''stale''
   \<and> files (fst (generate_sample_data E_ok w_stale)) (output_file_of script_location)
       = Some ''PAR1-snappy-20-PAR1''
   \<and> files (fst (generate_sample_data E_ok (fst (generate_sample_data E_ok w_stale))))
        (output_file_of script_location)
       = Some ''PAR1-snappy-20-PAR1''"
proof -
  have h1: "generate_sample_data E_ok w_stale =
     (fst (generate_sample_data E_ok w_stale), Inr (output_file_of script_location))"
    by (simp add: run_E_ok)
  have h2: "generate_sample_data E_ok (fst (generate_sample_data E_ok w_stale)) =
     (fst (generate_sample_data E_ok (fst (generate_sample_data E_ok w_stale))),
      Inr (output_file_of script_location))"
    by (simp add: run_E_ok)
  have b: "parquet_bytes E_ok (table_of data) ''snappy'' = ''PAR1-snappy-20-PAR1''"
    by (simp add: E_ok_def num_rows_def table_of_data column_lengths str_nat_values)
  have s: "files w_stale (output_file_of script_location) = Some ''stale''"
    by (simp add: w_stale_def w0_def output_file_location)
  from rerun_deterministic [OF h1 h2 refl]
  have "files (fst (generate_sample_data E_ok w_stale)) (output_file_of script_location)
          = Some (parquet_bytes E_ok (table_of data) ''snappy'')
      \<and> files (fst (generate_sample_data E_ok (fst (generate_sample_data E_ok w_stale))))
          (output_file_of script_location)
          = Some (parquet_bytes E_ok (table_of data) ''snappy'')"
    by simp
  then have c: "files (fst (generate_sample_data E_ok w_stale)) (output_file_of script_location)
          = Some ''PAR1-snappy-20-PAR1''
      \<and> files (fst (generate_sample_data E_ok (fst (generate_sample_data E_ok w_stale))))
          (output_file_of script_location)
          = Some ''PAR1-snappy-20-PAR1''"
    unfolding b .
  from h1 h2 s c show ?thesis by blast
qed

text \<open>
  Claim C9: every one of the 20 \<open>customer_email\<close> values ends with
  \<^verbatim>\<open>@example.com\<close>, and the values are pairwise distinct.
\<close>

theorem customer_email_domain:
  "list_all (\<lambda>e. endswith e ''@example.com'') customer_email
   \<and> distinct customer_email
   \<and> length customer_email = 20"
proof -
  have "list_all (\<lambda>e. endswith e ''@example.com'') customer_email"
    by (simp add: customer_email_def endswith_def)
  moreover have "distinct customer_email"
    by (simp add: customer_email_def)
  ultimately show ?thesis
    by (simp add: column_lengths)
qed


end
